theory Spec2Isabelle
  imports Complex_Main
begin

section \<open>Framework pieces the two sources rely on\<close>

text \<open>
  The sources are \<^verbatim>\<open>drake/systems/analysis/test/logistic_system.h\<close> and
  \<^verbatim>\<open>examples/manipulation_station/manipulation_station.cc\<close>. Both call into the
  systems framework (Context, ContinuousState, WitnessFunction, MultibodyPlant), whose
  code is not part of the two files. Only what the embedded functions touch is modelled:
  a raise is a value of \<open>error\<close>, a vector is a list with checked indexing, a Context is
  a record of the fields that are read.
\<close>

datatype error =
    IndexOutOfRange     \<comment> \<open>a vector is indexed past its end\<close>
  | ThrowUnless         \<comment> \<open>the condition of a \<^verbatim>\<open>DRAKE_THROW_UNLESS\<close> is false\<close>
  | NoSuchJoint         \<comment> \<open>\<^verbatim>\<open>GetJointByName\<close> finds no joint of that name\<close>
  | NoSuchSubsystem     \<comment> \<open>the diagram has no subsystem of that name or identity\<close>

text \<open>\<^verbatim>\<open>VectorBase::operator[]\<close>, reading and writing one component with a range check.\<close>

definition GetAtIndex :: "'a list \<Rightarrow> nat \<Rightarrow> error + 'a" where
  "GetAtIndex v i = (if i < length v then Inr (v ! i) else Inl IndexOutOfRange)"

definition SetAtIndex :: "'a list \<Rightarrow> nat \<Rightarrow> 'a \<Rightarrow> error + 'a list" where
  "SetAtIndex v i x = (if i < length v then Inr (v[i := x]) else Inl IndexOutOfRange)"

text \<open>
  A Context of a leaf system, as far as the logistic system reads it: the time and the
  continuous state vector. The scalar type \<open>'a\<close> is the template parameter \<^verbatim>\<open>T\<close>.
\<close>

record 'a Context =
  time :: 'a
  continuous_state :: "'a list"

definition get_time :: "'a Context \<Rightarrow> 'a" where
  "get_time context = time context"

definition get_continuous_state :: "'a Context \<Rightarrow> 'a list" where
  "get_continuous_state context = continuous_state context"

text \<open>
  Modelled from the spec: the enumerations \<^verbatim>\<open>WitnessFunction::DirectionType\<close> and
  \<^verbatim>\<open>DiscreteEvent::ActionType\<close> are declared in framework headers that are not among the
  sources. The source names \<^verbatim>\<open>kCrossesZero\<close> and \<^verbatim>\<open>kPublishAction\<close>; the other members
  follow the spec's list of trigger types (crosses-zero, becomes-positive,
  becomes-negative) and of event actions (publish, update-discrete-state).
\<close>

datatype DirectionType = kCrossesZero | kBecomesPositive | kBecomesNegative

datatype ActionType = kPublishAction | kUpdateDiscreteStateAction

text \<open>The base class \<^verbatim>\<open>WitnessFunction\<close>: what its constructor stores.\<close>

record WitnessFunction =
  direction_type :: DirectionType
  action_type :: ActionType

section \<open>The logistic system (logistic\_system.h)\<close>

text \<open>
  \<^verbatim>\<open>LogisticWitness\<close> adds no data to the base class but the back reference
  \<^verbatim>\<open>system_\<close>, which no method reads. Its constructor passes \<^verbatim>\<open>kCrossesZero\<close> and
  \<^verbatim>\<open>kPublishAction\<close> to the base class.
\<close>

definition LogisticWitness_ctor :: WitnessFunction where
  "LogisticWitness_ctor =
     \<lparr>direction_type = kCrossesZero, action_type = kPublishAction\<rparr>"

text \<open>
  \<^verbatim>\<open>LogisticWitness::DoEvaluate\<close> is a non-const method taking the Context by const
  reference. The model returns the value together with the witness object and the
  Context as they are after the call.
\<close>

definition DoEvaluate ::
  "WitnessFunction \<Rightarrow> 'a Context \<Rightarrow> error + ('a \<times> WitnessFunction \<times> 'a Context)" where
  "DoEvaluate this context =
     (case GetAtIndex (get_continuous_state context) 0 of
        Inl e \<Rightarrow> Inl e
      | Inr x \<Rightarrow> Inr (x, this, context))"

text \<open>
  \<^verbatim>\<open>LogisticSystem\<close>: the declared size of the continuous state (kept by the base class
  \<^verbatim>\<open>LeafSystem\<close>), the owned witness, the publish callback (\<open>None\<close> is the null
  \<^verbatim>\<open>std::function\<close>) and the three parameters, which are \<^verbatim>\<open>double\<close>s that meet values
  of \<^verbatim>\<open>T\<close> in the derivative and are kept as values of the scalar type. A callback acts
  on whatever lies outside the system and the Context; that outside is the state \<open>'w\<close>.
\<close>

record ('a, 'w) LogisticSystem =
  num_continuous_states :: nat
  witness_m :: WitnessFunction
  publish_callback_m :: "('a Context \<Rightarrow> 'w \<Rightarrow> 'w) option"
  k_m :: 'a
  alpha_m :: 'a
  nu_m :: 'a

definition DeclareContinuousState ::
  "nat \<Rightarrow> ('a, 'w) LogisticSystem \<Rightarrow> ('a, 'w) LogisticSystem" where
  "DeclareContinuousState n this = this\<lparr>num_continuous_states := n\<rparr>"

text \<open>
  The constructor: the member initialisers (\<^verbatim>\<open>publish_callback_{nullptr}\<close>, the three
  parameters), then \<^verbatim>\<open>DeclareContinuousState(1)\<close> and the witness. Before the
  declaration a leaf system has no continuous state.
\<close>

definition LogisticSystem_ctor :: "'a \<Rightarrow> 'a \<Rightarrow> 'a \<Rightarrow> ('a, 'w) LogisticSystem" where
  "LogisticSystem_ctor k alpha nu =
     (let this = \<lparr>num_continuous_states = 0, witness_m = LogisticWitness_ctor,
                  publish_callback_m = None, k_m = k, alpha_m = alpha, nu_m = nu\<rparr>;
          this = DeclareContinuousState 1 this
      in this\<lparr>witness_m := LogisticWitness_ctor\<rparr>)"

text \<open>
  \<^verbatim>\<open>DoCalcTimeDerivatives\<close> reads the time and component 0 of the state from the
  Context and writes component 0 of the vector it is handed (the parameter
  \<^verbatim>\<open>continuous_state\<close> of the source, \<open>derivatives\<close> here). \<^verbatim>\<open>pow\<close> of \<^verbatim>\<open><cmath>\<close> is
  a parameter; \<open>*\<close>, \<open>-\<close>, \<open>/\<close> and \<open>1\<close> are those of the scalar type, about which
  nothing is assumed. The result holds the Context and the vector after the call.
\<close>

definition DoCalcTimeDerivatives ::
  "('a \<Rightarrow> 'a \<Rightarrow> 'a) \<Rightarrow> ('a::{one,minus,times,inverse}, 'w) LogisticSystem \<Rightarrow>
     'a Context \<Rightarrow> 'a list \<Rightarrow> error + ('a Context \<times> 'a list)" where
  "DoCalcTimeDerivatives pow this context derivatives =
     (let t = get_time context in
      case GetAtIndex (get_continuous_state context) 0 of
        Inl e \<Rightarrow> Inl e
      | Inr x \<Rightarrow>
          (case SetAtIndex derivatives 0
                  (alpha_m this * (1 - pow (x / k_m this) (nu_m this)) * t) of
             Inl e \<Rightarrow> Inl e
           | Inr derivatives' \<Rightarrow> Inr (context, derivatives')))"

text \<open>\<^verbatim>\<open>DoCalcOutput\<close> has an empty body.\<close>

definition DoCalcOutput ::
  "('a, 'w) LogisticSystem \<Rightarrow> 'a Context \<Rightarrow> 'o \<Rightarrow> 'a Context \<times> 'o" where
  "DoCalcOutput this context output = (context, output)"

definition get_witness_functions ::
  "('a, 'w) LogisticSystem \<Rightarrow> 'a Context \<Rightarrow> WitnessFunction list" where
  "get_witness_functions this context = [witness_m this]"

definition DoPublish ::
  "('a, 'w) LogisticSystem \<Rightarrow> 'a Context \<Rightarrow> 'w \<Rightarrow> 'a Context \<times> 'w" where
  "DoPublish this context world =
     (case publish_callback_m this of
        None \<Rightarrow> (context, world)
      | Some callback \<Rightarrow> (context, callback context world))"

definition set_publish_callback ::
  "('a Context \<Rightarrow> 'w \<Rightarrow> 'w) option \<Rightarrow> ('a, 'w) LogisticSystem \<Rightarrow> ('a, 'w) LogisticSystem" where
  "set_publish_callback callback this = this\<lparr>publish_callback_m := callback\<rparr>"

text \<open>
  Modelled from the spec: the framework allocates a system's Context and its derivative
  vector (``size fixed at system construction'', ``size equals continuous.size()''); the
  allocation code is not among the sources. A Context, or a derivative vector, belongs to
  a system when its size is the declared one.
\<close>

definition context_of :: "('a, 'w) LogisticSystem \<Rightarrow> 'a Context \<Rightarrow> bool" where
  "context_of this context \<longleftrightarrow>
     length (continuous_state context) = num_continuous_states this"

definition derivatives_of :: "('a, 'w) LogisticSystem \<Rightarrow> 'a list \<Rightarrow> bool" where
  "derivatives_of this derivatives \<longleftrightarrow> length derivatives = num_continuous_states this"

text \<open>
  A driver for sequences of calls: the objects a simulation holds (the system, its
  Context, the derivative vector, the outside world) and the operations of the system
  applied to them one after the other. A call that raises leaves the objects as they
  were, since every raise above happens before the first write.
\<close>

record ('a, 'w) sim_objects =
  the_system :: "('a, 'w) LogisticSystem"
  the_context :: "'a Context"
  the_derivatives :: "'a list"
  the_world :: 'w

datatype ('a, 'w) operation =
    CalcTimeDerivatives
  | CalcOutput
  | Evaluate
  | GetWitnessFunctions
  | Publish
  | SetPublishCallback "('a Context \<Rightarrow> 'w \<Rightarrow> 'w) option"

fun apply_operation ::
  "('a \<Rightarrow> 'a \<Rightarrow> 'a) \<Rightarrow> ('a::{one,minus,times,inverse}, 'w) operation \<Rightarrow>
     ('a, 'w) sim_objects \<Rightarrow> ('a, 'w) sim_objects" where
  "apply_operation pow CalcTimeDerivatives s =
     (case DoCalcTimeDerivatives pow (the_system s) (the_context s) (the_derivatives s) of
        Inl e \<Rightarrow> s
      | Inr (context, derivatives) \<Rightarrow>
          s\<lparr>the_context := context, the_derivatives := derivatives\<rparr>)"
| "apply_operation pow CalcOutput s =
     s\<lparr>the_context := fst (DoCalcOutput (the_system s) (the_context s) ())\<rparr>"
| "apply_operation pow Evaluate s =
     (case DoEvaluate (witness_m (the_system s)) (the_context s) of
        Inl e \<Rightarrow> s
      | Inr (x, witness, context) \<Rightarrow>
          s\<lparr>the_system := (the_system s)\<lparr>witness_m := witness\<rparr>, the_context := context\<rparr>)"
| "apply_operation pow GetWitnessFunctions s = s"
| "apply_operation pow Publish s =
     (case DoPublish (the_system s) (the_context s) (the_world s) of
        (context, world) \<Rightarrow> s\<lparr>the_context := context, the_world := world\<rparr>)"
| "apply_operation pow (SetPublishCallback callback) s =
     s\<lparr>the_system := set_publish_callback callback (the_system s)\<rparr>"

fun apply_operations ::
  "('a \<Rightarrow> 'a \<Rightarrow> 'a) \<Rightarrow> ('a::{one,minus,times,inverse}, 'w) operation list \<Rightarrow>
     ('a, 'w) sim_objects \<Rightarrow> ('a, 'w) sim_objects" where
  "apply_operations pow [] s = s"
| "apply_operations pow (operation # operations) s =
     apply_operations pow operations (apply_operation pow operation s)"

section \<open>The scalar type double\<close>

text \<open>
  \<^verbatim>\<open>ManipulationStation\<close> is instantiated for \<^verbatim>\<open>double\<close> only, and its gains are
  \<^verbatim>\<open>VectorX<double>\<close>. A \<^verbatim>\<open>double\<close> is an IEEE 754 binary64 value: a NaN, an infinity
  with a sign, or a finite value with a sign. Every finite binary64 value is an integer
  multiple of \<^verbatim>\<open>2^-1074\<close>, the smallest positive subnormal: \<open>Finite s m\<close> stands for
  the value \<^verbatim>\<open>(-1)^s * m * 2^-1074\<close>. The multiples that are values of the format are
  those below \<^verbatim>\<open>2^1024\<close> whose significant bits fit the 53 bits of the significand
  (\<open>representable\<close>); \<open>is_double\<close> holds of the values of the format. The two zeros
  are \<open>Finite False 0\<close> and \<open>Finite True 0\<close>. All NaNs are one value.
\<close>

datatype double = Finite bool nat | Infinity bool | NaN

definition double_precision :: nat where
  "double_precision = 53"

definition double_scale :: nat where
  "double_scale = 1074"

definition double_top :: nat where
  "double_top = 2098"

text \<open>The number of bits of a natural number: the least \<open>b\<close> with \<^verbatim>\<open>n < 2^b\<close>.\<close>

fun bit_length :: "nat \<Rightarrow> nat" where
  "bit_length n = (if n = 0 then 0 else Suc (bit_length (n div 2)))"

declare bit_length.simps [simp del]

definition representable :: "nat \<Rightarrow> bool" where
  "representable m \<longleftrightarrow>
     m < 2 ^ double_top \<and> m mod 2 ^ (bit_length m - double_precision) = 0"

fun is_double :: "double \<Rightarrow> bool" where
  "is_double (Finite s m) = representable m"
| "is_double (Infinity s) = True"
| "is_double NaN = True"

text \<open>
  Rounding to nearest, ties to even, the default rounding of binary64 arithmetic. A
  magnitude \<open>y\<close> is scaled to \<^verbatim>\<open>z = y * 2^1074\<close>; where \<open>z\<close> has more than 53 bits
  before the point, the grid is coarser by the factor \<^verbatim>\<open>2^k\<close>, \<open>k\<close> the number of
  bits in excess; a rounded magnitude of \<^verbatim>\<open>2^1024\<close> or more overflows to the infinity.
\<close>

definition round_half_even :: "rat \<Rightarrow> nat" where
  "round_half_even q =
     (let f = nat \<lfloor>q\<rfloor>; d = q - of_nat f
      in if d < 1 / 2 then f else if 1 / 2 < d then f + 1
         else if even f then f else f + 1)"

definition round_to_double :: "bool \<Rightarrow> rat \<Rightarrow> double" where
  "round_to_double s y =
     (let z = y * 2 ^ double_scale;
          k = bit_length (nat \<lfloor>z\<rfloor>) - double_precision;
          m = round_half_even (z / 2 ^ k) * 2 ^ k
      in if m < 2 ^ double_top then Finite s m else Infinity s)"

text \<open>Conversion of an integer literal (\<^verbatim>\<open>0\<close>, \<^verbatim>\<open>2\<close>) to \<^verbatim>\<open>double\<close>.\<close>

definition double_of_nat :: "nat \<Rightarrow> double" where
  "double_of_nat n = round_to_double False (of_nat n)"

text \<open>
  Unary minus, \<open>+\<close>, binary \<open>-\<close>, \<open>/\<close> and \<open>>=\<close>, \<open><\<close> of \<^verbatim>\<open>double\<close>. An operation on
  finite values rounds the exact result; an exact sum of zero is the negative zero only
  when both summands are negative; \<open>x - y\<close> is \<open>x + (-y)\<close>; the sign of a quotient is
  the exclusive or of the signs; a comparison with a NaN is false, and the two zeros are
  equal.
\<close>

fun fneg :: "double \<Rightarrow> double" where
  "fneg (Finite s m) = Finite (\<not> s) m"
| "fneg (Infinity s) = Infinity (\<not> s)"
| "fneg NaN = NaN"

fun signed_magnitude :: "bool \<Rightarrow> nat \<Rightarrow> int" where
  "signed_magnitude s m = (if s then - int m else int m)"

fun fadd :: "double \<Rightarrow> double \<Rightarrow> double" where
  "fadd NaN b = NaN"
| "fadd a NaN = NaN"
| "fadd (Infinity s) (Infinity t) = (if s = t then Infinity s else NaN)"
| "fadd (Infinity s) (Finite t n) = Infinity s"
| "fadd (Finite s m) (Infinity t) = Infinity t"
| "fadd (Finite s m) (Finite t n) =
     (let r = signed_magnitude s m + signed_magnitude t n
      in if r = 0 then Finite (s \<and> t) 0
         else round_to_double (r < 0) (of_int \<bar>r\<bar> / 2 ^ double_scale))"

definition fsub :: "double \<Rightarrow> double \<Rightarrow> double" where
  "fsub a b = fadd a (fneg b)"

fun fdiv :: "double \<Rightarrow> double \<Rightarrow> double" where
  "fdiv NaN b = NaN"
| "fdiv a NaN = NaN"
| "fdiv (Infinity s) (Infinity t) = NaN"
| "fdiv (Infinity s) (Finite t n) = Infinity (s \<noteq> t)"
| "fdiv (Finite s m) (Infinity t) = Finite (s \<noteq> t) 0"
| "fdiv (Finite s m) (Finite t n) =
     (if n = 0 then (if m = 0 then NaN else Infinity (s \<noteq> t))
      else round_to_double (s \<noteq> t) (of_nat m / of_nat n))"

fun fge :: "double \<Rightarrow> double \<Rightarrow> bool" where
  "fge NaN b = False"
| "fge a NaN = False"
| "fge (Infinity s) (Infinity t) = (\<not> s \<or> t)"
| "fge (Infinity s) (Finite t n) = (\<not> s)"
| "fge (Finite s m) (Infinity t) = t"
| "fge (Finite s m) (Finite t n) = (signed_magnitude t n \<le> signed_magnitude s m)"

fun flt :: "double \<Rightarrow> double \<Rightarrow> bool" where
  "flt NaN b = False"
| "flt a NaN = False"
| "flt a b = (\<not> fge a b)"

section \<open>The manipulation station (manipulation\_station.cc)\<close>

text \<open>
  A \<^verbatim>\<open>ModelInstanceIndex\<close> is a \<^verbatim>\<open>TypeSafeIndex\<close>: default constructed it is invalid
  (\<open>None\<close>), otherwise it holds a number.
\<close>

type_synonym ModelInstanceIndex = "nat option"

definition is_valid :: "ModelInstanceIndex \<Rightarrow> bool" where
  "is_valid index = (case index of None \<Rightarrow> False | Some i \<Rightarrow> True)"

text \<open>
  A frame of the plant, as far as the station reads it: its name, the index of the body
  it is attached to and its fixed pose in that body's frame. Poses (\<^verbatim>\<open>RigidTransform\<close>,
  \<^verbatim>\<open>Isometry3\<close>) are values of a type \<open>'x\<close> whose \<open>*\<close> is the composition; nothing is
  assumed about it.
\<close>

record 'x Frame =
  frame_name :: string
  body_index :: nat
  GetFixedPoseInBodyFrame :: 'x

text \<open>
  The plant, as far as the station reads it: whether it is finalized, its joints (name
  and model instance), the index of the world body and the name of the world frame.
  \<^verbatim>\<open>GetJointByName\<close> raises when the model instance has no joint of the name.
\<close>

record MultibodyPlant =
  is_finalized :: bool
  joints :: "(string \<times> nat) list"
  world_body_index :: nat
  world_frame_name :: string

definition GetJointByName ::
  "MultibodyPlant \<Rightarrow> string \<Rightarrow> ModelInstanceIndex \<Rightarrow> error + (string \<times> nat)" where
  "GetJointByName plant name model_instance =
     (case model_instance of
        None \<Rightarrow> Inl NoSuchJoint
      | Some i \<Rightarrow> if (name, i) \<in> set (joints plant) then Inr (name, i) else Inl NoSuchJoint)"

text \<open>
  The Context of the plant holds one translation for each prismatic joint; the Context
  of the station holds the Context of the plant and that of the gripper controller,
  whose state is the position it starts from.
\<close>

record PlantContext =
  translation :: "string \<times> nat \<Rightarrow> double"

definition get_translation :: "string \<times> nat \<Rightarrow> PlantContext \<Rightarrow> double" where
  "get_translation joint plant_context = translation plant_context joint"

definition set_translation :: "string \<times> nat \<Rightarrow> PlantContext \<Rightarrow> double \<Rightarrow> PlantContext" where
  "set_translation joint plant_context x =
     plant_context\<lparr>translation := (translation plant_context)(joint := x)\<rparr>"

record StationContext =
  plant_context_of :: PlantContext
  wsg_controller_position :: double

text \<open>The members \<^verbatim>\<open>iiwa_model_\<close> and \<^verbatim>\<open>wsg_model_\<close>, and one entry of \<^verbatim>\<open>camera_information_\<close>.\<close>

record 'x Model =
  model_path :: string
  model_parent_frame :: "'x Frame option"
  model_child_frame :: "'x Frame option"
  model_X_PC :: 'x
  model_instance :: ModelInstanceIndex

record ('x, 'p) CameraInformation =
  info_parent_frame :: "'x Frame"
  info_X_PC :: 'x
  info_properties :: 'p

text \<open>
  The station: the plant, the two registered models, the gripper gains, the cameras (a
  \<^verbatim>\<open>std::map\<close>, kept as a list of pairs with one pair for each key) and the names of the
  subsystems of the diagram, which is empty until \<^verbatim>\<open>Finalize\<close> has built it. The
  gains of the arm reach \<^verbatim>\<open>SetIiwaGains\<close> through a pointer and are an argument there.
\<close>

record ('x, 'p) ManipulationStation =
  plant :: MultibodyPlant
  iiwa_model_m :: "'x Model"
  wsg_model_m :: "'x Model"
  wsg_kp_m :: double
  wsg_kd_m :: double
  camera_information_m :: "(string \<times> ('x, 'p) CameraInformation) list"
  subsystem_names :: "string list"

definition GetSubsystemByName ::
  "('x, 'p) ManipulationStation \<Rightarrow> string \<Rightarrow> error + string" where
  "GetSubsystemByName this name =
     (if name \<in> set (subsystem_names this) then Inr name else Inl NoSuchSubsystem)"

text \<open>
  \<^verbatim>\<open>RegisterIiwaControllerModel\<close> and \<^verbatim>\<open>RegisterWsgControllerModel\<close>. An operation
  that may raise returns what it raised, if anything, and the object as the call leaves
  it.
\<close>

definition RegisterIiwaControllerModel ::
  "string \<Rightarrow> ModelInstanceIndex \<Rightarrow> 'x Frame \<Rightarrow> 'x Frame \<Rightarrow> 'x \<Rightarrow>
     ('x, 'p) ManipulationStation \<Rightarrow> error option \<times> ('x, 'p) ManipulationStation" where
  "RegisterIiwaControllerModel path iiwa_instance parent_frame child_frame X_PC this =
     (if frame_name parent_frame \<noteq> world_frame_name (plant this)
      then (Some ThrowUnless, this)
      else (None, this\<lparr>iiwa_model_m :=
                       \<lparr>model_path = path, model_parent_frame = Some parent_frame,
                        model_child_frame = Some child_frame, model_X_PC = X_PC,
                        model_instance = iiwa_instance\<rparr>\<rparr>))"

definition RegisterWsgControllerModel ::
  "string \<Rightarrow> ModelInstanceIndex \<Rightarrow> 'x Frame \<Rightarrow> 'x Frame \<Rightarrow> 'x \<Rightarrow>
     ('x, 'p) ManipulationStation \<Rightarrow> ('x, 'p) ManipulationStation" where
  "RegisterWsgControllerModel path wsg_instance parent_frame child_frame X_PC this =
     this\<lparr>wsg_model_m :=
            \<lparr>model_path = path, model_parent_frame = Some parent_frame,
             model_child_frame = Some child_frame, model_X_PC = X_PC,
             model_instance = wsg_instance\<rparr>\<rparr>"

text \<open>
  \<^verbatim>\<open>Finalize\<close> starts with the two checks of the model instances. What follows them
  (\<^verbatim>\<open>MakeIiwaControllerModel\<close>, finalizing the plant, adding and connecting the
  subsystems, \<^verbatim>\<open>BuildInto\<close>) is framework code throughout and is the parameter
  \<open>build\<close>.
\<close>

definition Finalize ::
  "(('x, 'p) ManipulationStation \<Rightarrow> error option \<times> ('x, 'p) ManipulationStation) \<Rightarrow>
     ('x, 'p) ManipulationStation \<Rightarrow> error option \<times> ('x, 'p) ManipulationStation" where
  "Finalize build this =
     (if \<not> is_valid (model_instance (iiwa_model_m this)) then (Some ThrowUnless, this)
      else if \<not> is_valid (model_instance (wsg_model_m this)) then (Some ThrowUnless, this)
      else build this)"

text \<open>
  \<^verbatim>\<open>GetSubsystemContext\<close> and \<^verbatim>\<open>GetMutableSubsystemContext\<close> for the plant: the part
  of the station Context that is the Context of the plant. The plant is a subsystem of
  the diagram, under its name \<^verbatim>\<open>plant\<close>, once \<^verbatim>\<open>Finalize\<close> has built the diagram; on a
  station that was never built the lookup fails.
\<close>

definition GetSubsystemContext_plant ::
  "('x, 'p) ManipulationStation \<Rightarrow> StationContext \<Rightarrow> error + PlantContext" where
  "GetSubsystemContext_plant this station_context =
     (if ''plant'' \<in> set (subsystem_names this) then Inr (plant_context_of station_context)
      else Inl NoSuchSubsystem)"

text \<open>
  \<^verbatim>\<open>GetWsgPosition\<close> and \<^verbatim>\<open>SetWsgPosition\<close>. Both start by taking the Context of the
  plant out of the station Context. \<^verbatim>\<open>SetWsgPosition\<close> then sets the right finger, then
  the left finger, then looks the gripper controller up by name and sets the position it
  starts from; a lookup that raises leaves what was written before it.
\<close>

definition GetWsgPosition ::
  "('x, 'p) ManipulationStation \<Rightarrow> StationContext \<Rightarrow> error + double" where
  "GetWsgPosition this station_context =
     (case GetSubsystemContext_plant this station_context of
        Inl e \<Rightarrow> Inl e
      | Inr plant_context \<Rightarrow>
          (case GetJointByName (plant this) ''right_finger_sliding_joint''
                  (model_instance (wsg_model_m this)) of
             Inl e \<Rightarrow> Inl e
           | Inr right \<Rightarrow>
               (case GetJointByName (plant this) ''left_finger_sliding_joint''
                       (model_instance (wsg_model_m this)) of
                  Inl e \<Rightarrow> Inl e
                | Inr left \<Rightarrow>
                    Inr (fsub (get_translation right plant_context)
                              (get_translation left plant_context)))))"

definition SetWsgPosition ::
  "('x, 'p) ManipulationStation \<Rightarrow> double \<Rightarrow> StationContext \<Rightarrow>
     error option \<times> StationContext" where
  "SetWsgPosition this q station_context =
     (case GetSubsystemContext_plant this station_context of
        Inl e \<Rightarrow> (Some e, station_context)
      | Inr plant_context \<Rightarrow>
          (case GetJointByName (plant this) ''right_finger_sliding_joint''
                  (model_instance (wsg_model_m this)) of
             Inl e \<Rightarrow> (Some e, station_context)
           | Inr right \<Rightarrow>
               (let plant_context =
                      set_translation right plant_context (fdiv q (double_of_nat 2)) in
                case GetJointByName (plant this) ''left_finger_sliding_joint''
                       (model_instance (wsg_model_m this)) of
                  Inl e \<Rightarrow> (Some e, station_context\<lparr>plant_context_of := plant_context\<rparr>)
                | Inr left \<Rightarrow>
                    (let plant_context =
                           set_translation left plant_context
                             (fdiv (fneg q) (double_of_nat 2)) in
                     case GetSubsystemByName this ''wsg_controller'' of
                       Inl e \<Rightarrow> (Some e, station_context\<lparr>plant_context_of := plant_context\<rparr>)
                     | Inr wsg_controller \<Rightarrow>
                         (None, station_context\<lparr>plant_context_of := plant_context,
                                                wsg_controller_position := q\<rparr>)))))"

text \<open>\<^verbatim>\<open>SetWsgGains\<close>, with the same checks on the two gains of the gripper.\<close>

definition SetWsgGains ::
  "double \<Rightarrow> double \<Rightarrow> ('x, 'p) ManipulationStation \<Rightarrow>
     error option \<times> ('x, 'p) ManipulationStation" where
  "SetWsgGains kp kd this =
     (if is_finalized (plant this) then (Some ThrowUnless, this)
      else if \<not> (fge kp (double_of_nat 0) \<and> fge kd (double_of_nat 0))
        then (Some ThrowUnless, this)
      else (None, this\<lparr>wsg_kp_m := kp, wsg_kd_m := kd\<rparr>))"

text \<open>
  \<^verbatim>\<open>SetIiwaGains\<close>: \<open>gains\<close> is the vector the pointer refers to; the result holds
  that vector as the call leaves it.
\<close>

definition SetIiwaGains ::
  "('x, 'p) ManipulationStation \<Rightarrow> double list \<Rightarrow> double list \<Rightarrow>
     error option \<times> double list" where
  "SetIiwaGains this new_gains gains =
     (if is_finalized (plant this) then (Some ThrowUnless, gains)
      else if length new_gains \<noteq> length gains then (Some ThrowUnless, gains)
      else if \<not> list_all (\<lambda>x. fge x (double_of_nat 0)) new_gains
        then (Some ThrowUnless, gains)
      else (None, new_gains))"

text \<open>
  \<^verbatim>\<open>std::map\<close>: \<^verbatim>\<open>m[k] = v\<close> replaces the value of a key or adds the key;
  \<^verbatim>\<open>m.emplace(k, v)\<close> adds the key unless it is there. The order of the keys, which
  no function below depends on, is not kept.
\<close>

fun map_assign :: "'k \<Rightarrow> 'v \<Rightarrow> ('k \<times> 'v) list \<Rightarrow> ('k \<times> 'v) list" where
  "map_assign k v [] = [(k, v)]"
| "map_assign k v (p # m) = (if fst p = k then (k, v) # m else p # map_assign k v m)"

definition map_emplace :: "'k \<Rightarrow> 'v \<Rightarrow> ('k \<times> 'v) list \<Rightarrow> ('k \<times> 'v) list" where
  "map_emplace k v m = (if k \<in> fst ` set m then m else m @ [(k, v)])"

definition RegisterRgbdCamera ::
  "string \<Rightarrow> 'x Frame \<Rightarrow> 'x \<Rightarrow> 'p \<Rightarrow> ('x, 'p) ManipulationStation \<Rightarrow>
     ('x, 'p) ManipulationStation" where
  "RegisterRgbdCamera name parent_frame X_PC properties this =
     (let info = \<lparr>info_parent_frame = parent_frame, info_X_PC = X_PC,
                  info_properties = properties\<rparr>
      in this\<lparr>camera_information_m := map_assign name info (camera_information_m this)\<rparr>)"

text \<open>
  \<^verbatim>\<open>GetStaticCameraPosesInWorld\<close>: the body of the loop over \<^verbatim>\<open>camera_information_\<close>,
  then the loop, which starts from the empty map.
\<close>

definition camera_pose_step ::
  "('x::times, 'p) ManipulationStation \<Rightarrow> string \<times> ('x, 'p) CameraInformation \<Rightarrow>
     (string \<times> 'x) list \<Rightarrow> (string \<times> 'x) list" where
  "camera_pose_step this info static_camera_poses =
     (let frame_P = info_parent_frame (snd info);
          is_anchored = (body_index frame_P = world_body_index (plant this))
      in if is_anchored
         then map_emplace (fst info)
                (GetFixedPoseInBodyFrame frame_P * info_X_PC (snd info))
                static_camera_poses
         else static_camera_poses)"

definition GetStaticCameraPosesInWorld ::
  "('x::times, 'p) ManipulationStation \<Rightarrow> (string \<times> 'x) list" where
  "GetStaticCameraPosesInWorld this =
     fold (camera_pose_step this) (camera_information_m this) []"

text \<open>
  When halving a \<^verbatim>\<open>double\<close> is exact: an infinity stays itself, a finite value must be
  an even multiple of the smallest subnormal.
\<close>

fun halves_exactly :: "double \<Rightarrow> bool" where
  "halves_exactly (Finite s m) = even m"
| "halves_exactly (Infinity s) = True"
| "halves_exactly NaN = False"

subsection \<open>Stations and Contexts for the concrete evaluations\<close>

text \<open>
  The station as the constructor leaves it, as far as the record shows: the plant not
  finalized, \<^verbatim>\<open>iiwa_model_\<close> and \<^verbatim>\<open>wsg_model_\<close> default constructed, their model instance
  invalid, no camera and no diagram. The station as \<^verbatim>\<open>SetupDefaultStation\<close> leaves it: the
  arm is model instance 4 and registered on the world frame, the gripper with its two
  finger joints is model instance 5 and registered on a frame of the arm, and the
  cameras \<^verbatim>\<open>0\<close>, \<^verbatim>\<open>1\<close> and \<^verbatim>\<open>2\<close> are registered on the world frame. That station with
  one more camera, registered by a caller on a frame of the gripper body. The default
  station once finalized, where \<open>build_diagram\<close> is what the rest of \<^verbatim>\<open>Finalize\<close>
  leaves in the record when nothing raises: the plant finalized and the named
  subsystems in the diagram. Poses are integers here, \<open>*\<close> standing for the
  composition.
\<close>

definition unregistered_model :: "int Model" where
  "unregistered_model =
     \<lparr>model_path = [], model_parent_frame = None, model_child_frame = None,
      model_X_PC = 1, model_instance = None\<rparr>"

definition world_frame :: "int Frame" where
  "world_frame = \<lparr>frame_name = ''WorldBody'', body_index = 0, GetFixedPoseInBodyFrame = 1\<rparr>"

definition iiwa_link_0 :: "int Frame" where
  "iiwa_link_0 = \<lparr>frame_name = ''iiwa_link_0'', body_index = 3, GetFixedPoseInBodyFrame = 1\<rparr>"

definition iiwa_link_7 :: "int Frame" where
  "iiwa_link_7 = \<lparr>frame_name = ''iiwa_link_7'', body_index = 10, GetFixedPoseInBodyFrame = 1\<rparr>"

definition gripper_frame :: "int Frame" where
  "gripper_frame = \<lparr>frame_name = ''body'', body_index = 11, GetFixedPoseInBodyFrame = 2\<rparr>"

definition zero_double :: double where
  "zero_double = Finite False 0"

definition empty_station :: "(int, unit) ManipulationStation" where
  "empty_station =
     \<lparr>plant = \<lparr>is_finalized = False, joints = [], world_body_index = 0,
               world_frame_name = ''WorldBody''\<rparr>,
      iiwa_model_m = unregistered_model, wsg_model_m = unregistered_model,
      wsg_kp_m = zero_double, wsg_kd_m = zero_double,
      camera_information_m = [], subsystem_names = []\<rparr>"

definition default_station :: "(int, unit) ManipulationStation" where
  "default_station =
     RegisterRgbdCamera ''2'' world_frame 11 ()
       (RegisterRgbdCamera ''1'' world_frame 5 ()
          (RegisterRgbdCamera ''0'' world_frame 3 ()
             (RegisterWsgControllerModel ''schunk_wsg_50.sdf'' (Some 5) iiwa_link_7
                gripper_frame 7
                (snd (RegisterIiwaControllerModel ''iiwa7_no_collision.sdf'' (Some 4)
                        world_frame iiwa_link_0 1
                        (empty_station
                           \<lparr>plant := (plant empty_station)
                              \<lparr>joints := [(''left_finger_sliding_joint'', 5),
                                          (''right_finger_sliding_joint'', 5)]\<rparr>\<rparr>))))))"

definition station_with_wrist_camera :: "(int, unit) ManipulationStation" where
  "station_with_wrist_camera = RegisterRgbdCamera ''wrist'' gripper_frame 13 () default_station"

definition build_diagram ::
  "(int, unit) ManipulationStation \<Rightarrow> error option \<times> (int, unit) ManipulationStation" where
  "build_diagram this =
     (None, this\<lparr>plant := (plant this)\<lparr>is_finalized := True\<rparr>,
                subsystem_names := [''plant'', ''scene_graph'', ''iiwa_controller'',
                                    ''desired_state_from_position'', ''wsg_controller'',
                                    ''dev_scene_graph_for_rendering'']\<rparr>)"

definition finalized_station :: "(int, unit) ManipulationStation" where
  "finalized_station = snd (Finalize build_diagram default_station)"

definition zero_context :: StationContext where
  "zero_context =
     \<lparr>plant_context_of = \<lparr>translation = (\<lambda>joint. zero_double)\<rparr>,
      wsg_controller_position = zero_double\<rparr>"

definition zero_gains :: "double list" where
  "zero_gains = replicate 7 zero_double"

definition nan_gains :: "double list" where
  "nan_gains = [NaN, zero_double, zero_double, zero_double, zero_double, zero_double, zero_double]"

section \<open>The simulation loop of the spec\<close>

text \<open>
  The Simulator, the Integrator and the capability contract of a System are code of the
  repository that is not among the sources; the spec describes them in its sections 3,
  4 and 6. The definitions of this section follow those sections. Contexts are the
  Contexts above and their extensions, with real numbers for the spec's real scalars.
\<close>

text \<open>
  Modelled from the spec: the WitnessFunction of section 3, not among the sources. It
  has a trigger type, an associated discrete event and an evaluation rule from a
  Context to a real; the first two are the fields of the base class above.
\<close>

record 'c SimWitness = WitnessFunction +
  evaluate :: "'c \<Rightarrow> real"

text \<open>
  Modelled from the spec: the capability contract of a System (section 4.1), not among
  the sources. \<^verbatim>\<open>ComputeDerivatives\<close>, \<^verbatim>\<open>GetWitnessFunctions\<close> and \<^verbatim>\<open>HandleEvent\<close> are
  functions of the Context; \<^verbatim>\<open>ComputeOutputs\<close>, which the simulation loop does not call,
  is left out.
\<close>

record 'c System =
  ComputeDerivatives :: "'c \<Rightarrow> real list"
  GetWitnessFunctions :: "'c \<Rightarrow> 'c SimWitness list"
  HandleEvent :: "ActionType \<Rightarrow> 'c \<Rightarrow> 'c"

text \<open>
  Modelled from the spec: the options of \<^verbatim>\<open>config\<close> that \<^verbatim>\<open>Simulate\<close> recognises
  (section 6), not among the sources.
\<close>

record config =
  max_step_size :: real
  event_isolation_tolerance :: real
  max_events_per_unit_time :: nat


text \<open>
  Modelled from the spec: the states of the Simulator's state machine (section 4.3),
  not among the sources; the failed state carries the reason and the time.
\<close>

datatype phase = Idle | Stepping | IsolatingEvent | Dispatching | Done | FailedAt string real

text \<open>
  Modelled from the spec: what the Simulator holds between the steps of section 4.3,
  not among the sources: the Context it drives, the pre-step Context (the snapshot the
  spec keeps until a step is accepted, from which the root search integrates), the sign
  snapshot \<open>s0\<close>, the candidates of the step, the bracket of the root search, the event
  log and the times at which events were isolated.
\<close>

record 'd sim_state =
  phase :: phase
  current :: "(real, 'd) Context_scheme"
  pre_step :: "(real, 'd) Context_scheme"
  snapshot :: "real list"
  candidates :: "nat list"
  bracket_lo :: real
  bracket_hi :: real
  event_log :: "(real \<times> nat \<times> ActionType) list"
  isolations :: "real list"

text \<open>
  Modelled from the spec: the trigger conditions of step 3 of section 4.3, not among
  the sources. The spec gives becomes-positive as ``non-positive to positive only'';
  becomes-negative is its mirror image, and crosses-zero, ``any sign change'', is either
  of the two. (Were a move from a sign to zero a sign change too, the witness \<open>f(x) = x\<close>
  of the spec's scenario, isolated where \<open>x = 0\<close>, would trigger again on leaving zero,
  against ``dispatch exactly once''.)
\<close>

fun matches :: "DirectionType \<Rightarrow> real \<Rightarrow> real \<Rightarrow> bool" where
  "matches kBecomesPositive s0 s1 = (s0 \<le> 0 \<and> 0 < s1)"
| "matches kBecomesNegative s0 s1 = (0 \<le> s0 \<and> s1 < 0)"
| "matches kCrossesZero s0 s1 = ((s0 \<le> 0 \<and> 0 < s1) \<or> (0 \<le> s0 \<and> s1 < 0))"

text \<open>
  Modelled from the spec: the sign snapshot of steps 1, 3 and 8, and the witness
  functions of a list of indices whose trigger condition matches the transition from
  the snapshot \<open>s0\<close> to the signs at a Context; neither is among the sources.
\<close>

definition signs :: "'c System \<Rightarrow> 'c \<Rightarrow> real list" where
  "signs system c = map (\<lambda>w. sgn (evaluate w c)) (GetWitnessFunctions system c)"

definition triggered :: "'c System \<Rightarrow> real list \<Rightarrow> 'c \<Rightarrow> nat list \<Rightarrow> nat list" where
  "triggered system s0 c indices =
     (let witnesses = GetWitnessFunctions system c
      in filter (\<lambda>i. i < length witnesses \<and> i < length s0
                    \<and> matches (direction_type (witnesses ! i)) (s0 ! i)
                        (sgn (evaluate (witnesses ! i) c)))
           indices)"

text \<open>
  Modelled from the spec: the indices of all witness functions, in declaration order
  (step 6), not among the sources.
\<close>

definition all_witnesses :: "'c System \<Rightarrow> 'c \<Rightarrow> nat list" where
  "all_witnesses system c = [0..<length (GetWitnessFunctions system c)]"

text \<open>
  Modelled from the spec: the candidate next time of step 2,
  \<open>t1 = min(t + max_step, T)\<close>, not among the sources.
\<close>

definition next_target :: "config \<Rightarrow> real \<Rightarrow> (real, 'd) Context_scheme \<Rightarrow> real" where
  "next_target cfg T c = min (time c + max_step_size cfg) T"

text \<open>
  Modelled from the spec: step 7, not among the sources. \<^verbatim>\<open>HandleEvent\<close> is invoked for
  each triggered witness function in order, and each invocation is entered in the event
  log with the time of the dispatch, the index of the witness function and its event.
\<close>

definition dispatch_all :: "'c System \<Rightarrow> 'c \<Rightarrow> nat list \<Rightarrow> 'c" where
  "dispatch_all system c fired =
     fold (\<lambda>i c'. HandleEvent system (action_type (GetWitnessFunctions system c ! i)) c')
       fired c"

definition log_entries ::
  "(real, 'd) Context_scheme System \<Rightarrow> (real, 'd) Context_scheme \<Rightarrow> nat list \<Rightarrow>
     (real \<times> nat \<times> ActionType) list" where
  "log_entries system c fired =
     map (\<lambda>i. (time c, i, action_type (GetWitnessFunctions system c ! i))) fired"

text \<open>
  Modelled from the spec: the guard of step 9 with the option
  \<^verbatim>\<open>max_events_per_unit_time\<close>, not among the sources: isolating an event at time \<open>t\<close> is
  excessive when more than that many events have been isolated within the unit of
  time that ends at \<open>t\<close>, this one included.
\<close>

definition excessive :: "config \<Rightarrow> real \<Rightarrow> real list \<Rightarrow> bool" where
  "excessive cfg t previous \<longleftrightarrow>
     max_events_per_unit_time cfg < length (filter (\<lambda>u. t - 1 < u) (t # previous))"

text \<open>
  Modelled from the spec: the point at which the bisection of step 5 divides the
  bracket, not among the sources.
\<close>

definition midpoint :: "'d sim_state \<Rightarrow> real" where
  "midpoint s = (bracket_lo s + bracket_hi s) / 2"

text \<open>
  Modelled from the spec: the state machine of section 4.3, not among the sources, one
  rule for each way a state is left. The parameter \<open>integrate\<close> is the Integrator of
  section 4.2 as the Simulator uses it: on a system, a Context and a target time it
  gives the Context advanced to that time, \<^verbatim>\<open>Step\<close> being invoked again while it stops
  short of the target, or nothing after a fatal integration failure.
  \<^item> \<open>idle\<close> is step 1.
  \<^item> \<open>finish\<close>: with the end time reached the run is done (step 4).
  \<^item> \<open>step_failure\<close>, \<open>step_commit\<close>, \<open>step_event\<close> are steps 2 to 5: the Integrator is
    asked for the Context at \<open>t1\<close>; a failure is fatal; without a candidate \<open>t1\<close> is
    committed and the snapshot replaced; with candidates the tentative Context is
    discarded, the Context at \<open>t0\<close> is kept as the pre-step Context and the root search
    starts on \<open>[t0, t1]\<close>.
  \<^item> \<open>isolate_later\<close>, \<open>isolate_earlier\<close> halve the bracket until it is narrower than
    the tolerance, keeping the half in which a candidate first triggers; each probe
    integrates from the pre-step Context.
  \<^item> \<open>isolate_found\<close>, \<open>isolate_excessive\<close>: with the bracket narrower than the
    tolerance, \<open>t*\<close> is its upper end, where a candidate has triggered and which lies
    less than the tolerance after a time where none has; the Context is integrated
    again from \<open>t0\<close> to exactly \<open>t*\<close>, unless the guard of step 9 reports excessive
    events.
  \<^item> \<open>dispatch\<close> is steps 6 to 8: the candidates that have triggered at \<open>t*\<close> are
    dispatched in declaration order, the signs are taken again after the events, and
    stepping resumes from \<open>t*\<close>.
  A non-finite derivative or witness value, the spec's other fatal failure, does not
  exist among the reals.
\<close>

inductive sim_step ::
  "config \<Rightarrow> ((real, 'd) Context_scheme System \<Rightarrow> (real, 'd) Context_scheme \<Rightarrow> real \<Rightarrow>
      (real, 'd) Context_scheme option) \<Rightarrow>
   (real, 'd) Context_scheme System \<Rightarrow> real \<Rightarrow> 'd sim_state \<Rightarrow> 'd sim_state \<Rightarrow> bool"
  for cfg integrate system T where
  idle:
    "phase s = Idle \<Longrightarrow>
     sim_step cfg integrate system T s
       (s\<lparr>phase := Stepping, snapshot := signs system (current s)\<rparr>)"
| finish:
    "phase s = Stepping \<Longrightarrow> T \<le> time (current s) \<Longrightarrow>
     sim_step cfg integrate system T s (s\<lparr>phase := Done\<rparr>)"
| step_failure:
    "phase s = Stepping \<Longrightarrow> time (current s) < T \<Longrightarrow>
     integrate system (current s) (next_target cfg T (current s)) = None \<Longrightarrow>
     sim_step cfg integrate system T s
       (s\<lparr>phase := FailedAt ''integration failure'' (time (current s))\<rparr>)"
| step_commit:
    "phase s = Stepping \<Longrightarrow> time (current s) < T \<Longrightarrow>
     integrate system (current s) (next_target cfg T (current s)) = Some reached \<Longrightarrow>
     triggered system (snapshot s) reached (all_witnesses system reached) = [] \<Longrightarrow>
     sim_step cfg integrate system T s (s\<lparr>current := reached, snapshot := signs system reached\<rparr>)"
| step_event:
    "phase s = Stepping \<Longrightarrow> time (current s) < T \<Longrightarrow>
     integrate system (current s) (next_target cfg T (current s)) = Some reached \<Longrightarrow>
     triggered system (snapshot s) reached (all_witnesses system reached) \<noteq> [] \<Longrightarrow>
     sim_step cfg integrate system T s
       (s\<lparr>phase := IsolatingEvent,
          pre_step := current s,
          candidates := triggered system (snapshot s) reached (all_witnesses system reached),
          bracket_lo := time (current s),
          bracket_hi := next_target cfg T (current s)\<rparr>)"
| isolate_failure:
    "phase s = IsolatingEvent \<Longrightarrow>
     integrate system (pre_step s)
       (if event_isolation_tolerance cfg \<le> bracket_hi s - bracket_lo s
        then midpoint s else bracket_hi s) = None \<Longrightarrow>
     sim_step cfg integrate system T s
       (s\<lparr>phase := FailedAt ''integration failure'' (time (pre_step s))\<rparr>)"
| isolate_later:
    "phase s = IsolatingEvent \<Longrightarrow>
     event_isolation_tolerance cfg \<le> bracket_hi s - bracket_lo s \<Longrightarrow>
     integrate system (pre_step s) (midpoint s) = Some probe \<Longrightarrow>
     triggered system (snapshot s) probe (candidates s) = [] \<Longrightarrow>
     sim_step cfg integrate system T s (s\<lparr>bracket_lo := midpoint s\<rparr>)"
| isolate_earlier:
    "phase s = IsolatingEvent \<Longrightarrow>
     event_isolation_tolerance cfg \<le> bracket_hi s - bracket_lo s \<Longrightarrow>
     integrate system (pre_step s) (midpoint s) = Some probe \<Longrightarrow>
     triggered system (snapshot s) probe (candidates s) \<noteq> [] \<Longrightarrow>
     sim_step cfg integrate system T s (s\<lparr>bracket_hi := midpoint s\<rparr>)"
| isolate_excessive:
    "phase s = IsolatingEvent \<Longrightarrow>
     \<not> event_isolation_tolerance cfg \<le> bracket_hi s - bracket_lo s \<Longrightarrow>
     integrate system (pre_step s) (bracket_hi s) = Some arrived \<Longrightarrow>
     excessive cfg (bracket_hi s) (isolations s) \<Longrightarrow>
     sim_step cfg integrate system T s
       (s\<lparr>phase := FailedAt ''excessive events'' (bracket_hi s), current := arrived\<rparr>)"
| isolate_found:
    "phase s = IsolatingEvent \<Longrightarrow>
     \<not> event_isolation_tolerance cfg \<le> bracket_hi s - bracket_lo s \<Longrightarrow>
     integrate system (pre_step s) (bracket_hi s) = Some arrived \<Longrightarrow>
     \<not> excessive cfg (bracket_hi s) (isolations s) \<Longrightarrow>
     sim_step cfg integrate system T s
       (s\<lparr>phase := Dispatching, current := arrived, isolations := bracket_hi s # isolations s\<rparr>)"
| dispatch:
    "phase s = Dispatching \<Longrightarrow>
     fired = triggered system (snapshot s) (current s) (candidates s) \<Longrightarrow>
     c = dispatch_all system (current s) fired \<Longrightarrow>
     sim_step cfg integrate system T s
       (s\<lparr>phase := Stepping, current := c, snapshot := signs system c, candidates := [],
          event_log := event_log s @ log_entries system (current s) fired\<rparr>)"

code_pred (modes: i \<Rightarrow> i \<Rightarrow> i \<Rightarrow> i \<Rightarrow> i \<Rightarrow> o \<Rightarrow> bool) sim_step .












text \<open>
  Modelled from the spec: explicit Euler, the spec's example of a fixed-step integrator
  (section 4.2), not among the sources, taking the interval to the target time in one
  step.
\<close>

definition explicit_euler ::
  "(real, 'd) Context_scheme System \<Rightarrow> (real, 'd) Context_scheme \<Rightarrow> real \<Rightarrow>
     (real, 'd) Context_scheme option" where
  "explicit_euler system c t =
     Some (c\<lparr>time := t,
             continuous_state :=
               map2 (\<lambda>x d. x + (t - time c) * d) (continuous_state c)
                 (ComputeDerivatives system c)\<rparr>)"

text \<open>
  The scenario of section 8 of the spec: a leaf system with continuous state
  \<open>x(0) = -0.5\<close>, derivative \<open>dx/dt = 1\<close> and the crosses-zero witness \<open>f(x) = x\<close>, whose
  event is a publish that changes nothing; simulated to the end time 1 with steps of 1
  at most and events isolated to 1/8. \<open>scenario_state\<close> writes a state of that run,
  the Context and the pre-step Context each as the pair of its time and \<open>x\<close>.
\<close>

definition scenario_witness :: "real Context SimWitness" where
  "scenario_witness =
     \<lparr>direction_type = kCrossesZero, action_type = kPublishAction,
      evaluate = (\<lambda>c. continuous_state c ! 0)\<rparr>"

definition scenario_system :: "real Context System" where
  "scenario_system =
     \<lparr>ComputeDerivatives = (\<lambda>c. [1]),
      GetWitnessFunctions = (\<lambda>c. [scenario_witness]),
      HandleEvent = (\<lambda>a c. c)\<rparr>"

definition scenario_config :: config where
  "scenario_config =
     \<lparr>max_step_size = 1, event_isolation_tolerance = 1 / 8, max_events_per_unit_time = 10\<rparr>"


abbreviation "scenario_step \<equiv> sim_step scenario_config explicit_euler scenario_system 1"

section \<open>Properties of the logistic system\<close>

lemma GetAtIndex_0: "0 < length v \<Longrightarrow> GetAtIndex v 0 = Inr (v ! 0)"
  by (simp add: GetAtIndex_def)

lemma SetAtIndex_0: "0 < length v \<Longrightarrow> SetAtIndex v 0 x = Inr (v[0 := x])"
  by (simp add: SetAtIndex_def)

lemma singleton_update: "length v = Suc 0 \<Longrightarrow> v[0 := x] = [x]"
  by (cases v) auto

lemma ctor_num_continuous_states:
  "num_continuous_states (LogisticSystem_ctor k alpha nu) = 1"
  by (simp add: LogisticSystem_ctor_def DeclareContinuousState_def)

lemma ctor_fields:
  "alpha_m (LogisticSystem_ctor k alpha nu) = alpha"
  "k_m (LogisticSystem_ctor k alpha nu) = k"
  "nu_m (LogisticSystem_ctor k alpha nu) = nu"
  "witness_m (LogisticSystem_ctor k alpha nu) = LogisticWitness_ctor"
  "publish_callback_m (LogisticSystem_ctor k alpha nu) = None"
  by (simp_all add: LogisticSystem_ctor_def DeclareContinuousState_def)

text \<open>
  C1. For a logistic system as its constructor leaves it (whatever callback is set
  afterwards), a Context of that system and a derivative vector allocated for it,
  \<^verbatim>\<open>DoCalcTimeDerivatives\<close> returns without a raise, the Context after the call is the
  Context before it, and the derivative vector after the call has the declared size 1,
  its one component being \<open>alpha * (1 - pow (x / k) nu) * t\<close> with \<open>x\<close> component 0 of
  the continuous state and \<open>t\<close> the time of the Context.
\<close>

theorem DoCalcTimeDerivatives_value:
  fixes this :: "('a::{one,minus,times,inverse}, 'w) LogisticSystem"
  assumes "this = set_publish_callback callback (LogisticSystem_ctor k alpha nu)"
    and "context_of this context"
    and "derivatives_of this derivatives"
  shows "DoCalcTimeDerivatives pow this context derivatives =
           Inr (context,
                [alpha * (1 - pow (continuous_state context ! 0 / k) nu) * time context])
         \<and> length [alpha * (1 - pow (continuous_state context ! 0 / k) nu) * time context] =
             num_continuous_states this
         \<and> num_continuous_states this = 1"
proof -
  have n: "num_continuous_states this = 1"
    using assms(1) by (simp add: set_publish_callback_def ctor_num_continuous_states)
  have fields: "alpha_m this = alpha" "k_m this = k" "nu_m this = nu"
    using assms(1) by (simp_all add: set_publish_callback_def ctor_fields)
  have lc: "length (continuous_state context) = Suc 0"
    using assms(2) n by (simp add: context_of_def)
  have ld: "length derivatives = Suc 0"
    using assms(3) n by (simp add: derivatives_of_def)
  have rd: "GetAtIndex (get_continuous_state context) 0 = Inr (continuous_state context ! 0)"
    using lc by (simp add: GetAtIndex_0 get_continuous_state_def)
  have wr: "SetAtIndex derivatives 0 y = Inr [y]" for y
    using ld by (simp add: SetAtIndex_0 singleton_update)
  show ?thesis
    by (simp add: DoCalcTimeDerivatives_def rd wr fields n get_time_def)
qed

theorem DoCalcTimeDerivatives_value_witness:
  "DoCalcTimeDerivatives (\<lambda>a b. a)
       (set_publish_callback None (LogisticSystem_ctor 2 3 1 :: (rat, unit) LogisticSystem))
       \<lparr>time = 5, continuous_state = [1]\<rparr> [0] =
     Inr (\<lparr>time = 5, continuous_state = [1]\<rparr>, [15 / 2])"
proof -
  let ?sys = "set_publish_callback None (LogisticSystem_ctor 2 3 1 :: (rat, unit) LogisticSystem)"
  have c: "context_of ?sys \<lparr>time = 5, continuous_state = [1]\<rparr>"
    by (simp add: context_of_def set_publish_callback_def ctor_num_continuous_states)
  have d: "derivatives_of ?sys [0]"
    by (simp add: derivatives_of_def set_publish_callback_def ctor_num_continuous_states)
  show ?thesis
    using DoCalcTimeDerivatives_value [OF refl c d, of "\<lambda>a b. a"] by simp
qed

text \<open>
  C2. On a Context of the logistic system, \<^verbatim>\<open>LogisticWitness::DoEvaluate\<close> returns
  component 0 of the continuous state and leaves the witness object and the Context as
  they were; evaluating again on the Context it left returns the same value again.
\<close>

theorem DoEvaluate_pure:
  fixes this :: WitnessFunction and system :: "('a, 'w) LogisticSystem"
  assumes "system = set_publish_callback callback (LogisticSystem_ctor k alpha nu)"
    and "context_of system context"
  shows "DoEvaluate this context = Inr (continuous_state context ! 0, this, context)
         \<and> (\<exists>x this' context'. DoEvaluate this context = Inr (x, this', context')
               \<and> context' = context \<and> this' = this
               \<and> DoEvaluate this' context' = Inr (x, this', context'))"
proof -
  have "num_continuous_states system = 1"
    using assms(1) by (simp add: set_publish_callback_def ctor_num_continuous_states)
  then have "0 < length (continuous_state context)"
    using assms(2) by (simp add: context_of_def)
  then have "DoEvaluate this context = Inr (continuous_state context ! 0, this, context)"
    by (simp add: DoEvaluate_def GetAtIndex_0 get_continuous_state_def)
  then show ?thesis by simp
qed

theorem DoEvaluate_pure_witness:
  "DoEvaluate LogisticWitness_ctor \<lparr>time = 0, continuous_state = [- 1 / 2 :: rat]\<rparr> =
     Inr (- 1 / 2, LogisticWitness_ctor, \<lparr>time = 0, continuous_state = [- 1 / 2]\<rparr>)"
proof -
  let ?sys = "set_publish_callback None (LogisticSystem_ctor 1 1 1 :: (rat, unit) LogisticSystem)"
  have c: "context_of ?sys \<lparr>time = 0, continuous_state = [- 1 / 2]\<rparr>"
    by (simp add: context_of_def set_publish_callback_def ctor_num_continuous_states)
  show ?thesis
    using DoEvaluate_pure [OF refl c, of LogisticWitness_ctor] by simp
qed

text \<open>
  C3. For a logistic system as its constructor leaves it (whatever callback is set
  afterwards) and every Context, \<^verbatim>\<open>get_witness_functions\<close> returns a sequence of
  exactly one element, the witness the system owns, and that witness was constructed
  with direction \<^verbatim>\<open>kCrossesZero\<close> and action \<^verbatim>\<open>kPublishAction\<close>.
\<close>

theorem get_witness_functions_own_witness:
  "get_witness_functions
           (set_publish_callback callback (LogisticSystem_ctor k alpha nu)) context =
           [witness_m (set_publish_callback callback (LogisticSystem_ctor k alpha nu))]
         \<and> witness_m (set_publish_callback callback (LogisticSystem_ctor k alpha nu)) =
             LogisticWitness_ctor
         \<and> direction_type LogisticWitness_ctor = kCrossesZero
         \<and> action_type LogisticWitness_ctor = kPublishAction"
  by (simp add: get_witness_functions_def set_publish_callback_def ctor_fields
      LogisticWitness_ctor_def)

lemma apply_operation_sizes:
  "num_continuous_states (the_system (apply_operation pow operation s)) =
     num_continuous_states (the_system s)
   \<and> length (continuous_state (the_context (apply_operation pow operation s))) =
       length (continuous_state (the_context s))
   \<and> length (the_derivatives (apply_operation pow operation s)) =
       length (the_derivatives s)"
proof (cases operation)
  case CalcTimeDerivatives
  then show ?thesis
    by (auto simp: DoCalcTimeDerivatives_def SetAtIndex_def Let_def
          split: sum.splits prod.splits if_splits)
next
  case CalcOutput
  then show ?thesis by (simp add: DoCalcOutput_def)
next
  case Evaluate
  then show ?thesis by (auto simp: DoEvaluate_def split: sum.splits prod.splits)
next
  case GetWitnessFunctions
  then show ?thesis by simp
next
  case Publish
  then show ?thesis by (auto simp: DoPublish_def split: option.splits prod.splits)
next
  case (SetPublishCallback callback)
  then show ?thesis by (simp add: set_publish_callback_def)
qed

lemma apply_operations_sizes:
  "num_continuous_states (the_system (apply_operations pow operations s)) =
     num_continuous_states (the_system s)
   \<and> length (continuous_state (the_context (apply_operations pow operations s))) =
       length (continuous_state (the_context s))
   \<and> length (the_derivatives (apply_operations pow operations s)) =
       length (the_derivatives s)"
proof (induction operations arbitrary: s)
  case Nil
  show ?case by simp
next
  case (Cons operation operations)
  show ?case
    using Cons.IH [of "apply_operation pow operation s"]
      apply_operation_sizes [of pow operation s]
    by simp
qed

text \<open>
  C4. The constructor declares a continuous state of size 1, and no sequence of
  operations of the system (derivative computation, output computation, witness
  evaluation, listing the witness functions, publish, setting the callback) changes the
  declared size, the size of the continuous state vector of the Context or the size of
  the vector the derivatives are written to.
\<close>

theorem continuous_state_size_immutable:
  fixes s :: "('a::{one,minus,times,inverse}, 'w) sim_objects"
  shows "num_continuous_states (LogisticSystem_ctor k alpha nu) = 1
         \<and> num_continuous_states (the_system (apply_operations pow operations s)) =
             num_continuous_states (the_system s)
         \<and> length (continuous_state (the_context (apply_operations pow operations s))) =
             length (continuous_state (the_context s))
         \<and> length (the_derivatives (apply_operations pow operations s)) =
             length (the_derivatives s)"
  using apply_operations_sizes [of pow operations s]
  by (simp add: ctor_num_continuous_states)

text \<open>
  C9. With the stored callback null, as the constructor leaves it or as
  \<^verbatim>\<open>set_publish_callback\<close> with a null function leaves it, \<^verbatim>\<open>DoPublish\<close> leaves the
  Context and the world outside as they were. With a callback set, the world after
  \<^verbatim>\<open>DoPublish\<close> is the world after one call of that callback on the given Context, and
  the Context is as it was; a callback that appends its argument to a log appends the
  given Context, once.
\<close>

theorem DoPublish_callback:
  fixes this :: "('a, 'w) LogisticSystem"
    and other :: "('a, 'a Context list) LogisticSystem"
  shows "DoPublish (LogisticSystem_ctor k alpha nu) context world = (context, world)
         \<and> DoPublish (set_publish_callback None this) context world = (context, world)
         \<and> DoPublish (set_publish_callback (Some callback) this) context world =
             (context, callback context world)
         \<and> DoPublish (set_publish_callback (Some (\<lambda>c calls. calls @ [c])) other) context calls =
             (context, calls @ [context])"
proof (intro conjI)
  have "publish_callback_m (LogisticSystem_ctor k alpha nu :: ('a, 'w) LogisticSystem) = None"
    by (simp add: ctor_fields)
  then show "DoPublish (LogisticSystem_ctor k alpha nu) context world = (context, world)"
    by (simp add: DoPublish_def)
next
  have "publish_callback_m (set_publish_callback None this) = None"
    by (simp add: set_publish_callback_def)
  then show "DoPublish (set_publish_callback None this) context world = (context, world)"
    by (simp add: DoPublish_def)
next
  have "publish_callback_m (set_publish_callback (Some callback) this) = Some callback"
    by (simp add: set_publish_callback_def)
  then show "DoPublish (set_publish_callback (Some callback) this) context world =
               (context, callback context world)"
    by (simp add: DoPublish_def)
next
  have "publish_callback_m (set_publish_callback (Some (\<lambda>c calls. calls @ [c])) other) =
          Some (\<lambda>c calls. calls @ [c])"
    by (simp add: set_publish_callback_def)
  then show "DoPublish (set_publish_callback (Some (\<lambda>c calls. calls @ [c])) other)
               context calls = (context, calls @ [context])"
    by (simp add: DoPublish_def)
qed

section \<open>Properties of the arithmetic of double\<close>

lemma bit_length_0 [simp]: "bit_length 0 = 0"
  by (simp add: bit_length.simps)

lemma bit_length_pos: "0 < n \<Longrightarrow> bit_length n = Suc (bit_length (n div 2))"
  by (subst bit_length.simps) simp

lemma bit_length_upper: "n < 2 ^ bit_length n"
proof (induction n rule: bit_length.induct)
  case (1 n)
  show ?case
  proof (cases "n = 0")
    case True
    then show ?thesis by simp
  next
    case False
    then have "n div 2 < 2 ^ bit_length (n div 2)" using 1 by simp
    then have "n < 2 * 2 ^ bit_length (n div 2)" by linarith
    then show ?thesis using False by (simp add: bit_length_pos)
  qed
qed

lemma bit_length_lower: "0 < n \<Longrightarrow> 2 ^ (bit_length n - 1) \<le> n"
proof (induction n rule: bit_length.induct)
  case (1 n)
  show ?case
  proof (cases "n div 2 = 0")
    case True
    then have "n = 1" using 1(2) by linarith
    then show ?thesis by (simp add: bit_length_pos)
  next
    case False
    then have "2 ^ (bit_length (n div 2) - 1) \<le> n div 2" using 1 by simp
    moreover have "bit_length n - 1 = Suc (bit_length (n div 2) - 1)"
      using False 1(2) by (simp add: bit_length_pos [of n] bit_length_pos [of "n div 2"])
    ultimately show ?thesis by simp
  qed
qed

lemma bit_length_eqI: "2 ^ b \<le> n \<Longrightarrow> n < 2 ^ Suc b \<Longrightarrow> bit_length n = Suc b"
proof -
  assume lo: "2 ^ b \<le> n" and hi: "n < 2 ^ Suc b"
  have "(0::nat) < 2 ^ b" by simp
  then have pos: "0 < n" using lo by linarith
  have "(2::nat) ^ b < 2 ^ bit_length n" using lo bit_length_upper [of n] by linarith
  then have a: "b < bit_length n"
    using power_less_imp_less_exp [of "2::nat" b "bit_length n"] by simp
  have "(2::nat) ^ (bit_length n - 1) < 2 ^ Suc b" using bit_length_lower [OF pos] hi by linarith
  then have "bit_length n - 1 < Suc b"
    using power_less_imp_less_exp [of "2::nat" "bit_length n - 1" "Suc b"] by simp
  then show ?thesis using a by linarith
qed

lemma bit_length_power: "bit_length (2 ^ j) = Suc j"
  by (rule bit_length_eqI) simp_all

lemma round_half_even_of_nat: "round_half_even (of_nat j) = j"
  by (simp add: round_half_even_def)

lemma round_to_double_exact:
  assumes "representable m"
  shows "round_to_double s (of_nat m / 2 ^ double_scale) = Finite s m"
proof -
  define k where "k = bit_length m - double_precision"
  have dvd: "2 ^ k dvd m" and top: "m < 2 ^ double_top"
    using assms by (simp_all add: representable_def k_def mod_eq_0_iff_dvd)
  then obtain j where j: "m = j * 2 ^ k" by (metis dvd_def mult.commute)
  have q: "(of_nat m :: rat) / 2 ^ k = of_nat j"
    by (simp add: j)
  have z: "(of_nat m :: rat) / 2 ^ double_scale * 2 ^ double_scale = of_nat m"
    by simp
  show ?thesis
    unfolding round_to_double_def Let_def z
    using top by (simp add: k_def [symmetric] q round_half_even_of_nat j [symmetric])
qed

lemma representable_0: "representable 0"
  by (simp add: representable_def)

lemma representable_half:
  assumes "representable m" and "even m"
  shows "representable (m div 2)"
proof (cases "m = 0")
  case True
  then show ?thesis using assms by (simp add: representable_def)
next
  case False
  then have bl: "bit_length m = Suc (bit_length (m div 2))" by (simp add: bit_length_pos)
  have top: "m div 2 < 2 ^ double_top"
    using assms(1) by (simp add: representable_def le_less_trans [OF div_le_dividend])
  show ?thesis
  proof (cases "bit_length (m div 2) \<le> double_precision")
    case True
    then show ?thesis using top by (simp add: representable_def)
  next
    case big: False
    define k where "k = bit_length (m div 2) - double_precision"
    have "bit_length m - double_precision = Suc k" using big bl by (simp add: k_def)
    then have "2 ^ Suc k dvd m" using assms(1) by (simp add: representable_def mod_eq_0_iff_dvd)
    then obtain j where "m = 2 ^ Suc k * j" by (auto simp: dvd_def)
    then have "m div 2 = 2 ^ k * j" by simp
    then have "2 ^ k dvd m div 2" by simp
    then show ?thesis using top by (simp add: representable_def k_def [symmetric] mod_eq_0_iff_dvd)
  qed
qed

lemma representable_two: "representable (2 ^ Suc double_scale)"
  unfolding representable_def bit_length_power
  by (simp add: double_scale_def double_top_def double_precision_def le_imp_power_dvd mod_eq_0_iff_dvd)

lemma double_of_nat_2: "double_of_nat 2 = Finite False (2 ^ Suc double_scale)"
proof -
  have "(of_nat 2 :: rat) = of_nat (2 ^ Suc double_scale) / 2 ^ double_scale" by simp
  then show ?thesis
    unfolding double_of_nat_def using round_to_double_exact [OF representable_two, of False]
    by simp
qed

lemma double_of_nat_0: "double_of_nat 0 = Finite False 0"
  using round_to_double_exact [OF representable_0, of False] by (simp add: double_of_nat_def)

lemma fdiv_two_exact:
  assumes "representable m" and "even m"
  shows "fdiv (Finite s m) (double_of_nat 2) = Finite s (m div 2)"
proof -
  obtain h where h: "m = 2 * h" using assms(2) by (auto elim: evenE)
  have "(of_nat m :: rat) / of_nat (2 ^ Suc double_scale) = of_nat (m div 2) / 2 ^ double_scale"
    by (simp add: h)
  then show ?thesis
    using round_to_double_exact [OF representable_half [OF assms], of s]
    by (simp add: double_of_nat_2)
qed

lemma fadd_self_exact:
  assumes "representable (2 * h)"
  shows "fadd (Finite s h) (Finite s h) = Finite s (2 * h)"
proof (cases "h = 0")
  case True
  then show ?thesis by simp
next
  case False
  have "round_to_double s (2 * of_nat h / 2 ^ double_scale) = Finite s (2 * h)"
    using round_to_double_exact [OF assms, of s] by simp
  then show ?thesis
    using False by (cases s) (simp_all add: Let_def)
qed

lemma halve_and_subtract:
  assumes "representable m" and "even m"
  shows "fsub (fdiv (Finite s m) (double_of_nat 2)) (fdiv (fneg (Finite s m)) (double_of_nat 2))
           = Finite s m"
proof -
  have "2 * (m div 2) = m" using assms(2) by simp
  then have "representable (2 * (m div 2))" using assms(1) by simp
  then have "fadd (Finite s (m div 2)) (Finite s (m div 2)) = Finite s m"
    using fadd_self_exact [of "m div 2" s] \<open>2 * (m div 2) = m\<close> by simp
  then show ?thesis
    by (simp add: fsub_def fdiv_two_exact [OF assms])
qed

lemma halve_and_subtract_infinity:
  "fsub (fdiv (Infinity s) (double_of_nat 2)) (fdiv (fneg (Infinity s)) (double_of_nat 2))
     = Infinity s"
  by (simp add: fsub_def double_of_nat_2)

lemma representable_1: "representable 1"
  by (simp add: representable_def bit_length_pos double_precision_def double_top_def)

lemma representable_power: "j < double_top \<Longrightarrow> representable (2 ^ j)"
  by (simp add: representable_def bit_length_power mod_eq_0_iff_dvd le_imp_power_dvd
      double_precision_def)

lemma fdiv_smallest: "fdiv (Finite s 1) (double_of_nat 2) = Finite s 0"
proof -
  have z: "(1::rat) / (2 * 2 ^ double_scale) * 2 ^ double_scale = 1 / 2"
    by simp
  have "round_to_double s (1 / (2 * 2 ^ double_scale)) = Finite s 0"
    unfolding round_to_double_def Let_def z
    by (simp add: round_half_even_def)
  then show ?thesis by (simp add: double_of_nat_2)
qed

lemma representable_long_even:
  assumes "representable m" and "double_precision < bit_length m"
  shows "even m"
proof -
  obtain k where k: "bit_length m - double_precision = Suc k"
    using assms(2) by (metis Suc_diff_Suc)
  have "2 ^ Suc k dvd m"
    using assms(1) by (simp add: representable_def k mod_eq_0_iff_dvd)
  then show ?thesis by (simp add: dvd_mult_left)
qed

lemma representable_large_even:
  assumes "representable m" and "2 ^ double_precision \<le> m"
  shows "even m"
proof -
  have "(2::nat) ^ double_precision < 2 ^ bit_length m"
    using assms(2) bit_length_upper [of m] by linarith
  then have "double_precision < bit_length m"
    using power_less_imp_less_exp [of "2::nat" double_precision "bit_length m"] by simp
  then show ?thesis by (rule representable_long_even [OF assms(1)])
qed

lemma representable_odd_small:
  assumes "representable m" and "odd m"
  shows "bit_length m \<le> double_precision"
proof (rule ccontr)
  assume "\<not> bit_length m \<le> double_precision"
  then have "double_precision < bit_length m" by simp
  then show False using representable_long_even [OF assms(1)] assms(2) by simp
qed

lemma small_of_bit_length:
  assumes "bit_length m \<le> double_precision"
  shows "m < 2 ^ double_precision"
proof -
  have "(2::nat) ^ bit_length m \<le> 2 ^ double_precision"
    using assms by (rule power_increasing) simp
  then show ?thesis using bit_length_upper [of m] by linarith
qed

lemma round_half_even_half:
  "odd m \<Longrightarrow> round_half_even (of_nat m / 2) =
     (if even (m div 2) then m div 2 else m div 2 + 1)"
proof -
  assume "odd m"
  then obtain h where h: "m = 2 * h + 1" by (auto elim: oddE)
  have q: "(of_nat m :: rat) / 2 = of_nat h + 1 / 2"
    by (simp add: h field_simps)
  have fl: "\<lfloor>(of_nat h :: rat) + 1 / 2\<rfloor> = int h"
    by (simp add: floor_unique)
  show ?thesis
    unfolding q by (simp add: round_half_even_def fl h)
qed

lemma fdiv_two_odd:
  assumes "representable m" and "odd m"
  shows "fdiv (Finite s m) (double_of_nat 2) =
           Finite s (if even (m div 2) then m div 2 else m div 2 + 1)"
proof -
  have small: "bit_length m \<le> double_precision"
    by (rule representable_odd_small [OF assms])
  have "0 < m" using assms(2) by (simp add: odd_pos)
  then have "bit_length (m div 2) \<le> double_precision"
    using small by (simp add: bit_length_pos [of m])
  then have k: "bit_length (m div 2) - double_precision = 0" by simp
  have z: "(of_nat m :: rat) / (2 * 2 ^ double_scale) * 2 ^ double_scale = of_nat m / 2"
    by simp
  have "\<lfloor>(of_nat m :: rat) / of_nat 2\<rfloor> = int (m div 2)"
    by (rule floor_divide_of_nat_eq)
  then have fl: "nat \<lfloor>(of_nat m :: rat) / 2\<rfloor> = m div 2"
    by simp
  have top: "m < 2 ^ double_top" using assms(1) by (simp add: representable_def)
  have "(if even (m div 2) then m div 2 else m div 2 + 1) \<le> m"
    using \<open>0 < m\<close> by auto
  then have le: "(if even (m div 2) then m div 2 else m div 2 + 1) < 2 ^ double_top"
    using top by linarith
  have "round_to_double s (of_nat m / (2 * 2 ^ double_scale)) =
          Finite s (if even (m div 2) then m div 2 else m div 2 + 1)"
    unfolding round_to_double_def Let_def z fl k
    using le by (simp add: round_half_even_half [OF assms(2)])
  then show ?thesis by (simp add: double_of_nat_2)
qed

lemma representable_small: "m \<le> 2 ^ double_precision \<Longrightarrow> representable m"
proof -
  assume le: "m \<le> 2 ^ double_precision"
  have top: "m < 2 ^ double_top"
  proof -
    have "(2::nat) ^ double_precision < 2 ^ double_top"
      by (simp add: double_precision_def double_top_def)
    then show ?thesis using le by linarith
  qed
  show ?thesis
  proof (cases "m = 2 ^ double_precision")
    case True
    have "double_precision < double_top"
      by (simp add: double_precision_def double_top_def)
    then have "representable (2 ^ double_precision)" by (rule representable_power)
    then show ?thesis using True by simp
  next
    case False
    then have "m < 2 ^ double_precision" using le by simp
    then have "bit_length m \<le> double_precision"
    proof (cases "m = 0")
      case True
      then show ?thesis by simp
    next
      case False
      then have "2 ^ (bit_length m - 1) \<le> m"
        using bit_length_lower [of m] by simp
      then have "2 ^ (bit_length m - 1) < (2::nat) ^ double_precision"
        using \<open>m < 2 ^ double_precision\<close> by linarith
      then have "bit_length m - 1 < double_precision"
        using power_less_imp_less_exp [of "2::nat" "bit_length m - 1" double_precision] by simp
      then show ?thesis by simp
    qed
    then show ?thesis using top by (simp add: representable_def)
  qed
qed

lemma halve_and_subtract_odd:
  assumes "representable m" and "odd m"
  shows "\<exists>n. even n \<and>
           fsub (fdiv (Finite s m) (double_of_nat 2)) (fdiv (fneg (Finite s m)) (double_of_nat 2))
             = Finite s n"
proof -
  define e where "e = (if even (m div 2) then m div 2 else m div 2 + 1)"
  have "m < 2 ^ double_precision"
    by (rule small_of_bit_length [OF representable_odd_small [OF assms]])
  then have "2 * e \<le> 2 ^ double_precision"
    using assms(2) by (auto simp: e_def elim!: oddE)
  then have rep: "representable (2 * e)" by (rule representable_small)
  have "fsub (fdiv (Finite s m) (double_of_nat 2)) (fdiv (fneg (Finite s m)) (double_of_nat 2))
          = fadd (Finite s e) (Finite s e)"
    by (simp add: fsub_def fdiv_two_odd [OF assms] e_def)
  then show ?thesis using fadd_self_exact [OF rep, of s] by auto
qed

section \<open>Properties of the manipulation station\<close>

lemmas station_defs = default_station_def RegisterRgbdCamera_def
  RegisterWsgControllerModel_def RegisterIiwaControllerModel_def empty_station_def
  world_frame_def unregistered_model_def

lemma not_fge_zero: "\<not> fge x (Finite False 0) \<longleftrightarrow> x = NaN \<or> flt x (Finite False 0)"
  by (cases x) auto

lemma list_all_fge_zero:
  "list_all (\<lambda>x. fge x (double_of_nat 0)) new_gains \<longleftrightarrow>
     \<not> (\<exists>x\<in>set new_gains. x = NaN \<or> flt x (double_of_nat 0))"
  using not_fge_zero by (auto simp: list_all_iff double_of_nat_0)

text \<open>
  C5, as the code has it. \<^verbatim>\<open>SetIiwaGains\<close> raises exactly when the plant is finalized,
  or the sizes of the new and the stored vector differ, or some entry of the new gains
  fails the test \<^verbatim>\<open>>= 0\<close>, that is, is negative or a NaN. When it raises, the stored
  gains are as before; otherwise it raises nothing and the stored gains are the new ones.
\<close>

theorem SetIiwaGains_raises_iff:
  "(fst (SetIiwaGains this new_gains gains) = Some ThrowUnless \<longleftrightarrow>
      is_finalized (plant this) \<or> length new_gains \<noteq> length gains
      \<or> (\<exists>x\<in>set new_gains. x = NaN \<or> flt x (double_of_nat 0)))
   \<and> (fst (SetIiwaGains this new_gains gains) = Some ThrowUnless \<longrightarrow>
        snd (SetIiwaGains this new_gains gains) = gains)
   \<and> (fst (SetIiwaGains this new_gains gains) \<noteq> Some ThrowUnless \<longrightarrow>
        SetIiwaGains this new_gains gains = (None, new_gains))"
proof (cases "is_finalized (plant this) \<or> length new_gains \<noteq> length gains
              \<or> (\<exists>x\<in>set new_gains. x = NaN \<or> flt x (double_of_nat 0))")
  case True
  then have "SetIiwaGains this new_gains gains = (Some ThrowUnless, gains)"
    by (auto simp: SetIiwaGains_def list_all_fge_zero)
  then show ?thesis using True by simp
next
  case False
  then have "SetIiwaGains this new_gains gains = (None, new_gains)"
    by (simp add: SetIiwaGains_def list_all_fge_zero)
  then show ?thesis using False by simp
qed

text \<open>
  The theorem at two inputs: on the unfinalized default station seven zero gains replace
  the stored ones; on the finalized station the call raises and the stored ones stay.
\<close>

theorem SetIiwaGains_raises_iff_witness:
  "SetIiwaGains default_station zero_gains nan_gains = (None, zero_gains)
   \<and> fst (SetIiwaGains finalized_station zero_gains nan_gains) = Some ThrowUnless
   \<and> snd (SetIiwaGains finalized_station zero_gains nan_gains) = nan_gains"
proof -
  have a: "\<not> is_finalized (plant default_station)"
    by (simp add: station_defs)
  have b: "is_finalized (plant finalized_station)"
    by (simp add: finalized_station_def Finalize_def build_diagram_def is_valid_def
        station_defs)
  have c: "length zero_gains = length nan_gains"
    by (simp add: zero_gains_def nan_gains_def)
  have d: "\<not> (\<exists>x\<in>set zero_gains. x = NaN \<or> flt x (double_of_nat 0))"
    by (simp add: zero_gains_def zero_double_def double_of_nat_0)
  show ?thesis
    using SetIiwaGains_raises_iff [of default_station zero_gains nan_gains]
      SetIiwaGains_raises_iff [of finalized_station zero_gains nan_gains] a b c d
    by simp
qed

text \<open>
  C5 as stated fails where an entry is a NaN: the plant is not finalized, the sizes
  agree, no entry is negative (the entries are a NaN and zeros, and neither is \<open>< 0\<close>),
  and \<^verbatim>\<open>SetIiwaGains\<close> raises.
\<close>

theorem SetIiwaGains_NaN_counterexample:
  "fst (SetIiwaGains default_station nan_gains zero_gains) = Some ThrowUnless
   \<and> \<not> is_finalized (plant default_station)
   \<and> length nan_gains = length zero_gains
   \<and> set nan_gains = {NaN, zero_double}
   \<and> \<not> flt NaN (double_of_nat 0)
   \<and> \<not> flt zero_double (double_of_nat 0)"
  by (simp add: SetIiwaGains_def station_defs
      nan_gains_def zero_gains_def zero_double_def double_of_nat_0)

text \<open>
  C6. When the model instance of \<^verbatim>\<open>iiwa_model_\<close> or of \<^verbatim>\<open>wsg_model_\<close> is invalid,
  \<^verbatim>\<open>Finalize\<close> raises at its checks: whatever the rest of the function would do, it is
  not reached, and the station is left as it was, its plant not finalized by this call
  and no diagram built.
\<close>

theorem Finalize_raises_before_build:
  assumes "\<not> is_valid (model_instance (iiwa_model_m this))
           \<or> \<not> is_valid (model_instance (wsg_model_m this))"
  shows "Finalize build this = (Some ThrowUnless, this)"
  using assms by (auto simp: Finalize_def)

text \<open>
  The theorem on the station as the constructor leaves it, and on that station with the
  arm registered and the gripper not.
\<close>

theorem Finalize_raises_before_build_witness:
  "Finalize build_diagram empty_station = (Some ThrowUnless, empty_station)
   \<and> \<not> is_finalized (plant empty_station) \<and> subsystem_names empty_station = []
   \<and> fst (Finalize build_diagram
            (snd (RegisterIiwaControllerModel ''iiwa7_no_collision.sdf'' (Some 4) world_frame
                    iiwa_link_0 1 empty_station))) = Some ThrowUnless"
proof -
  let ?iiwa_only = "snd (RegisterIiwaControllerModel ''iiwa7_no_collision.sdf'' (Some 4)
                           world_frame iiwa_link_0 1 empty_station)"
  have "\<not> is_valid (model_instance (iiwa_model_m empty_station))"
    by (simp add: empty_station_def unregistered_model_def is_valid_def)
  moreover have "\<not> is_valid (model_instance (iiwa_model_m ?iiwa_only))
                 \<or> \<not> is_valid (model_instance (wsg_model_m ?iiwa_only))"
    by (simp add: RegisterIiwaControllerModel_def empty_station_def unregistered_model_def
        world_frame_def is_valid_def)
  ultimately show ?thesis
    using Finalize_raises_before_build [of empty_station build_diagram]
      Finalize_raises_before_build [of ?iiwa_only build_diagram]
    by (simp add: empty_station_def)
qed

lemma finalized_station_fields:
  "''plant'' \<in> set (subsystem_names finalized_station)"
  "GetJointByName (plant finalized_station) ''right_finger_sliding_joint''
     (model_instance (wsg_model_m finalized_station)) = Inr (''right_finger_sliding_joint'', 5)"
  "GetJointByName (plant finalized_station) ''left_finger_sliding_joint''
     (model_instance (wsg_model_m finalized_station)) = Inr (''left_finger_sliding_joint'', 5)"
  "GetSubsystemByName finalized_station ''wsg_controller'' = Inr ''wsg_controller''"
  by (simp_all add: finalized_station_def Finalize_def build_diagram_def is_valid_def
      station_defs GetJointByName_def GetSubsystemByName_def GetSubsystemContext_plant_def)

lemma set_then_get:
  assumes p: "''plant'' \<in> set (subsystem_names this)"
    and r: "GetJointByName (plant this) ''right_finger_sliding_joint''
                (model_instance (wsg_model_m this)) = Inr right"
    and l: "GetJointByName (plant this) ''left_finger_sliding_joint''
                (model_instance (wsg_model_m this)) = Inr left"
    and c: "GetSubsystemByName this ''wsg_controller'' = Inr controller"
  shows "fst (SetWsgPosition this q station_context) = None"
    and "GetWsgPosition this (snd (SetWsgPosition this q station_context)) =
           Inr (fsub (fdiv q (double_of_nat 2)) (fdiv (fneg q) (double_of_nat 2)))"
proof -
  have ne: "right \<noteq> left"
    using r l by (auto simp: GetJointByName_def split: option.splits if_splits)
  show "fst (SetWsgPosition this q station_context) = None"
    by (simp add: SetWsgPosition_def GetSubsystemContext_plant_def p r l c Let_def)
  show "GetWsgPosition this (snd (SetWsgPosition this q station_context)) =
           Inr (fsub (fdiv q (double_of_nat 2)) (fdiv (fneg q) (double_of_nat 2)))"
    using ne by (simp add: SetWsgPosition_def GetWsgPosition_def GetSubsystemContext_plant_def
        p r l c Let_def get_translation_def set_translation_def)
qed

text \<open>
  C8 as stated fails at the smallest positive \<^verbatim>\<open>double\<close>, \<^verbatim>\<open>2^-1074\<close>: its half is a tie
  between 0 and itself and rounds to 0, so both fingers are set to a zero and the
  position read back is 0.
\<close>

theorem WsgPosition_smallest_counterexample:
  "is_double (Finite False 1)
   \<and> fst (SetWsgPosition finalized_station (Finite False 1) zero_context) = None
   \<and> GetWsgPosition finalized_station
       (snd (SetWsgPosition finalized_station (Finite False 1) zero_context)) =
       Inr (Finite False 0)
   \<and> Finite False 0 \<noteq> Finite False 1"
  using representable_1 fdiv_smallest [of False] fdiv_smallest [of True]
  by (simp add: set_then_get [OF finalized_station_fields] fsub_def del: One_nat_def)

text \<open>
  C8, as the code has it. Take a station with the gripper controller among its
  subsystems, whose plant has the two finger joints in the gripper's model instance,
  a \<^verbatim>\<open>double\<close> \<open>q\<close> other than a NaN and a station Context. When the plant is among the
  subsystems of the station, as it is once the diagram is built, \<^verbatim>\<open>SetWsgPosition\<close>
  raises nothing, and \<^verbatim>\<open>GetWsgPosition\<close> on the Context it leaves returns \<open>q\<close> exactly
  when halving \<open>q\<close> is exact: when \<open>q\<close> is an infinity or a finite value that is an even
  multiple of the smallest subnormal. Zero and every finite value of magnitude
  \<^verbatim>\<open>2^-1021\<close> or more are such values (\<open>representable_large_even\<close>). When the plant is
  not among the subsystems, \<^verbatim>\<open>SetWsgPosition\<close> raises before it writes anything.
\<close>

theorem WsgPosition_round_trip:
  assumes "(''right_finger_sliding_joint'', i) \<in> set (joints (plant this))"
    and "(''left_finger_sliding_joint'', i) \<in> set (joints (plant this))"
    and "model_instance (wsg_model_m this) = Some i"
    and "''wsg_controller'' \<in> set (subsystem_names this)"
    and "is_double q" and "q \<noteq> NaN"
  shows "if ''plant'' \<in> set (subsystem_names this)
         then fst (SetWsgPosition this q station_context) = None
              \<and> (GetWsgPosition this (snd (SetWsgPosition this q station_context)) = Inr q
                   \<longleftrightarrow> halves_exactly q)
         else SetWsgPosition this q station_context = (Some NoSuchSubsystem, station_context)"
proof (cases "''plant'' \<in> set (subsystem_names this)")
  case False
  then show ?thesis
    by (simp add: SetWsgPosition_def GetSubsystemContext_plant_def)
next
  case True
  have r: "GetJointByName (plant this) ''right_finger_sliding_joint''
             (model_instance (wsg_model_m this)) = Inr (''right_finger_sliding_joint'', i)"
    using assms(1,3) by (simp add: GetJointByName_def)
  have l: "GetJointByName (plant this) ''left_finger_sliding_joint''
             (model_instance (wsg_model_m this)) = Inr (''left_finger_sliding_joint'', i)"
    using assms(2,3) by (simp add: GetJointByName_def)
  have c: "GetSubsystemByName this ''wsg_controller'' = Inr ''wsg_controller''"
    using assms(4) by (simp add: GetSubsystemByName_def)
  have "fsub (fdiv q (double_of_nat 2)) (fdiv (fneg q) (double_of_nat 2)) = q
          \<longleftrightarrow> halves_exactly q"
  proof (cases q)
    case (Finite s m)
    show ?thesis
    proof (cases "even m")
      case True
      then show ?thesis
        using assms(5) Finite halve_and_subtract [of m s] by simp
    next
      case False
      then obtain n where "even n"
        and "fsub (fdiv (Finite s m) (double_of_nat 2))
               (fdiv (fneg (Finite s m)) (double_of_nat 2)) = Finite s n"
        using assms(5) Finite halve_and_subtract_odd [of m s] by auto
      then show ?thesis using False Finite by auto
    qed
  next
    case (Infinity s)
    then show ?thesis using halve_and_subtract_infinity [of s] by simp
  next
    case NaN
    then show ?thesis using assms(6) by simp
  qed
  then show ?thesis
    using True set_then_get [OF True r l c, of q station_context] by simp
qed

text \<open>
  The theorem at \<^verbatim>\<open>q = 2^-3\<close>, an opening of 0.125, on the finalized default station.
\<close>

theorem WsgPosition_round_trip_witness:
  "fst (SetWsgPosition finalized_station (Finite False (2 ^ 1071)) zero_context) = None
   \<and> GetWsgPosition finalized_station
       (snd (SetWsgPosition finalized_station (Finite False (2 ^ 1071)) zero_context)) =
       Inr (Finite False (2 ^ 1071))"
proof -
  have j: "''plant'' \<in> set (subsystem_names finalized_station)"
    "(''right_finger_sliding_joint'', 5) \<in> set (joints (plant finalized_station))"
    "(''left_finger_sliding_joint'', 5) \<in> set (joints (plant finalized_station))"
    "model_instance (wsg_model_m finalized_station) = Some 5"
    "''wsg_controller'' \<in> set (subsystem_names finalized_station)"
    by (simp_all add: finalized_station_def Finalize_def build_diagram_def is_valid_def
        station_defs)
  have d: "is_double (Finite False (2 ^ 1071))"
    using representable_power [of 1071] by (simp add: double_top_def)
  have n: "Finite False (2 ^ 1071) \<noteq> NaN"
    by simp
  show ?thesis
    using WsgPosition_round_trip [OF j(2-5) d n, of zero_context] j(1) by simp
qed

lemma map_of_map_emplace:
  "map_of (map_emplace k v m) n =
     (case map_of m n of Some w \<Rightarrow> Some w | None \<Rightarrow> if n = k then Some v else None)"
proof (cases "k \<in> fst ` set m")
  case True
  then obtain w where "map_of m k = Some w"
    by (metis domD dom_map_of_conv_image_fst)
  then show ?thesis using True by (auto simp: map_emplace_def split: option.splits)
next
  case False
  then show ?thesis
    by (auto simp: map_emplace_def map_add_def split: option.splits)
qed

lemma map_of_map_assign: "map_of (map_assign k v m) = (map_of m)(k \<mapsto> v)"
  by (induction m) auto

lemma keys_map_assign: "fst ` set (map_assign k v m) = insert k (fst ` set m)"
  by (induction m) auto

lemma distinct_map_assign:
  "distinct (map fst m) \<Longrightarrow> distinct (map fst (map_assign k v m))"
proof (induction m)
  case Nil
  show ?case by simp
next
  case (Cons p m)
  then show ?case
    using keys_map_assign [of k v m] by (auto simp del: keys_map_assign)
qed

lemma fold_camera_poses:
  assumes "distinct (map fst cameras)"
  shows "map_of (fold (camera_pose_step this) cameras poses) name =
           (case map_of poses name of
              Some w \<Rightarrow> Some w
            | None \<Rightarrow>
                (case map_of cameras name of
                   None \<Rightarrow> None
                 | Some info \<Rightarrow>
                     if body_index (info_parent_frame info) = world_body_index (plant this)
                     then Some (GetFixedPoseInBodyFrame (info_parent_frame info) * info_X_PC info)
                     else None))"
  using assms
proof (induction cameras arbitrary: poses)
  case Nil
  show ?case by (simp split: option.splits)
next
  case (Cons camera cameras)
  obtain k info where camera: "camera = (k, info)" by (cases camera)
  have absent: "map_of cameras k = None"
    using Cons.prems camera by (simp add: map_of_eq_None_iff)
  have rest: "distinct (map fst cameras)" using Cons.prems by simp
  show ?case
    using Cons.IH [OF rest, of "camera_pose_step this camera poses"] absent
    by (auto simp: camera camera_pose_step_def Let_def map_of_map_emplace
          split: option.splits)
qed

text \<open>
  C10. With the cameras a map (one entry for each name), the result of
  \<^verbatim>\<open>GetStaticCameraPosesInWorld\<close> has a name exactly when a camera of that name is
  registered on a frame attached to the world body, and maps the name to the fixed pose
  of that frame in its body composed with the registered \<^verbatim>\<open>X_PC\<close>; a camera registered
  on a frame of another body is absent from it. \<^verbatim>\<open>RegisterRgbdCamera\<close> keeps the cameras
  a map and stores the frame and \<^verbatim>\<open>X_PC\<close> it is given under the name.
\<close>

theorem GetStaticCameraPosesInWorld_lookup:
  assumes "distinct (map fst (camera_information_m this))"
  shows "map_of (GetStaticCameraPosesInWorld this) name =
           (case map_of (camera_information_m this) name of
              None \<Rightarrow> None
            | Some info \<Rightarrow>
                if body_index (info_parent_frame info) = world_body_index (plant this)
                then Some (GetFixedPoseInBodyFrame (info_parent_frame info) * info_X_PC info)
                else None)
         \<and> distinct (map fst (camera_information_m
               (RegisterRgbdCamera new_name frame pose camera_properties this)))
         \<and> map_of (camera_information_m
               (RegisterRgbdCamera new_name frame pose camera_properties this)) =
             (map_of (camera_information_m this))
               (new_name \<mapsto> \<lparr>info_parent_frame = frame, info_X_PC = pose,
                              info_properties = camera_properties\<rparr>)"
proof -
  have "map_of (GetStaticCameraPosesInWorld this) name =
           (case map_of (camera_information_m this) name of
              None \<Rightarrow> None
            | Some info \<Rightarrow>
                if body_index (info_parent_frame info) = world_body_index (plant this)
                then Some (GetFixedPoseInBodyFrame (info_parent_frame info) * info_X_PC info)
                else None)"
    using fold_camera_poses [OF assms, of this "[]" name]
    by (simp add: GetStaticCameraPosesInWorld_def)
  then show ?thesis
    using distinct_map_assign [OF assms]
    by (simp add: RegisterRgbdCamera_def map_of_map_assign)
qed

lemma wrist_station_cameras:
  "camera_information_m station_with_wrist_camera =
     [(''0'', \<lparr>info_parent_frame = world_frame, info_X_PC = 3, info_properties = ()\<rparr>),
      (''1'', \<lparr>info_parent_frame = world_frame, info_X_PC = 5, info_properties = ()\<rparr>),
      (''2'', \<lparr>info_parent_frame = world_frame, info_X_PC = 11, info_properties = ()\<rparr>),
      (''wrist'', \<lparr>info_parent_frame = gripper_frame, info_X_PC = 13,
                   info_properties = ()\<rparr>)]"
  by (simp add: station_with_wrist_camera_def station_defs)

text \<open>
  The theorem on the default station with the wrist camera added: the cameras 0, 1 and 2
  are on the world frame and are in the result with their poses, the wrist camera is on
  the gripper body and is not, and no camera 3 is registered.
\<close>

theorem GetStaticCameraPosesInWorld_lookup_witness:
  "map_of (GetStaticCameraPosesInWorld station_with_wrist_camera) ''0'' = Some 3
   \<and> map_of (GetStaticCameraPosesInWorld station_with_wrist_camera) ''1'' = Some 5
   \<and> map_of (GetStaticCameraPosesInWorld station_with_wrist_camera) ''2'' = Some 11
   \<and> map_of (GetStaticCameraPosesInWorld station_with_wrist_camera) ''wrist'' = None
   \<and> map_of (GetStaticCameraPosesInWorld station_with_wrist_camera) ''3'' = None"
proof -
  have d: "distinct (map fst (camera_information_m station_with_wrist_camera))"
    by (simp add: wrist_station_cameras)
  have w: "world_body_index (plant station_with_wrist_camera) = 0"
    by (simp add: station_with_wrist_camera_def station_defs)
  show ?thesis
    using GetStaticCameraPosesInWorld_lookup [OF d, of "''0''" "''0''" world_frame 3 "()"]
      GetStaticCameraPosesInWorld_lookup [OF d, of "''1''" "''0''" world_frame 3 "()"]
      GetStaticCameraPosesInWorld_lookup [OF d, of "''2''" "''0''" world_frame 3 "()"]
      GetStaticCameraPosesInWorld_lookup [OF d, of "''wrist''" "''0''" world_frame 3 "()"]
      GetStaticCameraPosesInWorld_lookup [OF d, of "''3''" "''0''" world_frame 3 "()"]
    by (simp add: wrist_station_cameras w world_frame_def gripper_frame_def)
qed

section \<open>Properties of the simulation loop\<close>










































end
